theory Spec2Isabelle
  imports Complex_Main "HOL-Library.Sublist"
begin

section \<open>JSON values as the Python scripts see them\<close>

text \<open>
  \<^verbatim>\<open>json.load\<close> yields \<^verbatim>\<open>None\<close>, \<^verbatim>\<open>bool\<close>, \<^verbatim>\<open>int\<close>, \<^verbatim>\<open>float\<close>, \<^verbatim>\<open>str\<close>,
  \<^verbatim>\<open>list\<close> and \<^verbatim>\<open>dict\<close> (with \<^verbatim>\<open>str\<close> keys, in document order).
  A float is a rational (every finite double is one), the negative zero, which differs
  from zero in its rendering only, or one of the three special values, which
  \<^verbatim>\<open>json.load\<close> produces for \<^verbatim>\<open>Infinity\<close>, \<^verbatim>\<open>-Infinity\<close>, \<^verbatim>\<open>NaN\<close> and for a
  literal such as \<^verbatim>\<open>1e999\<close>.
\<close>

datatype pyfloat = Finite rat | NegZero | PosInf | NegInf | NaN

datatype json =
    JNull
  | JBool bool
  | JInt int
  | JFloat pyfloat
  | JStr string
  | JList "json list"
  | JObj "(string \<times> json) list"

type_synonym pydict = "(string \<times> json) list"

datatype pyerr = TypeError | ValueError | OverflowError | OSError

text \<open>
  What the interpreter's builtins do on renderings that the scripts never inspect is
  taken as a parameter: \<^verbatim>\<open>repr\<close> of a float, \<^verbatim>\<open>repr\<close> of a \<^verbatim>\<open>str\<close> (its quoted
  form inside a container) and \<^verbatim>\<open>int\<close> of a \<^verbatim>\<open>str\<close>, where \<open>None\<close> stands for
  \<^verbatim>\<open>ValueError\<close>.
\<close>

record pyrt =
  repr_float :: "pyfloat \<Rightarrow> string"
  repr_str :: "string \<Rightarrow> string"
  int_of_str :: "string \<Rightarrow> int option"

text \<open>\<^verbatim>\<open>d.get(k)\<close> and \<^verbatim>\<open>d.get(k, default)\<close>: an absent key gives \<^verbatim>\<open>None\<close> or the default.\<close>

definition dict_get_default :: "pydict \<Rightarrow> string \<Rightarrow> json \<Rightarrow> json" where
  "dict_get_default d k dflt = (case map_of d k of None \<Rightarrow> dflt | Some v \<Rightarrow> v)"

definition dict_get :: "pydict \<Rightarrow> string \<Rightarrow> json" where
  "dict_get d k = dict_get_default d k JNull"

text \<open>Truth value testing, as \<^verbatim>\<open>or\<close> and \<^verbatim>\<open>if\<close> apply it.\<close>

fun truthy :: "json \<Rightarrow> bool" where
  "truthy JNull = False"
| "truthy (JBool b) = b"
| "truthy (JInt i) = (i \<noteq> 0)"
| "truthy (JFloat (Finite q)) = (q \<noteq> 0)"
| "truthy (JFloat NegZero) = False"
| "truthy (JFloat f) = True"
| "truthy (JStr s) = (s \<noteq> [])"
| "truthy (JList xs) = (xs \<noteq> [])"
| "truthy (JObj kvs) = (kvs \<noteq> [])"

definition py_or :: "json \<Rightarrow> json \<Rightarrow> json" where
  "py_or a b = (if truthy a then a else b)"

text \<open>\<^verbatim>\<open>str\<close> of an \<^verbatim>\<open>int\<close>: its decimal digits, with a minus sign when negative.\<close>

definition digit_char :: "nat \<Rightarrow> char" where
  "digit_char n = ''0123456789'' ! n"

function str_of_nat :: "nat \<Rightarrow> string" where
  "str_of_nat n =
     (if n < 10 then [digit_char n] else str_of_nat (n div 10) @ [digit_char (n mod 10)])"
  by pat_completeness auto
termination
  by (relation "measure id") auto

declare str_of_nat.simps [simp del]

definition str_of_int :: "int \<Rightarrow> string" where
  "str_of_int i = (if i < 0 then CHR ''-'' # str_of_nat (nat (- i)) else str_of_nat (nat i))"

text \<open>\<^verbatim>\<open>repr\<close>, and \<^verbatim>\<open>str\<close>, which differs from it on a \<^verbatim>\<open>str\<close> only.\<close>

fun py_repr :: "pyrt \<Rightarrow> json \<Rightarrow> string"
  and py_repr_elems :: "pyrt \<Rightarrow> json list \<Rightarrow> string"
  and py_repr_items :: "pyrt \<Rightarrow> (string \<times> json) list \<Rightarrow> string" where
  "py_repr rt JNull = ''None''"
| "py_repr rt (JBool b) = (if b then ''True'' else ''False'')"
| "py_repr rt (JInt i) = str_of_int i"
| "py_repr rt (JFloat f) = repr_float rt f"
| "py_repr rt (JStr s) = repr_str rt s"
| "py_repr rt (JList xs) = ''['' @ py_repr_elems rt xs @ '']''"
| "py_repr rt (JObj kvs) = ''{'' @ py_repr_items rt kvs @ ''}''"
| "py_repr_elems rt [] = []"
| "py_repr_elems rt [x] = py_repr rt x"
| "py_repr_elems rt (x # y # xs) = py_repr rt x @ '', '' @ py_repr_elems rt (y # xs)"
| "py_repr_items rt [] = []"
| "py_repr_items rt [(k, v)] = repr_str rt k @ '': '' @ py_repr rt v"
| "py_repr_items rt ((k, v) # kv # kvs) =
     repr_str rt k @ '': '' @ py_repr rt v @ '', '' @ py_repr_items rt (kv # kvs)"

definition py_str :: "pyrt \<Rightarrow> json \<Rightarrow> string" where
  "py_str rt v = (case v of JStr s \<Rightarrow> s | _ \<Rightarrow> py_repr rt v)"

text \<open>
  \<^verbatim>\<open>int(value)\<close>: a \<^verbatim>\<open>bool\<close> is 0 or 1, a finite float is truncated towards zero, an
  infinite one raises \<^verbatim>\<open>OverflowError\<close>, NaN and an unparsable \<^verbatim>\<open>str\<close> raise
  \<^verbatim>\<open>ValueError\<close>, \<^verbatim>\<open>None\<close>, a list and a dict raise \<^verbatim>\<open>TypeError\<close>.
\<close>

definition trunc_rat :: "rat \<Rightarrow> int" where
  "trunc_rat q = (if 0 \<le> q then \<lfloor>q\<rfloor> else \<lceil>q\<rceil>)"

fun py_int :: "pyrt \<Rightarrow> json \<Rightarrow> pyerr + int" where
  "py_int rt JNull = Inl TypeError"
| "py_int rt (JBool b) = Inr (if b then 1 else 0)"
| "py_int rt (JInt i) = Inr i"
| "py_int rt (JFloat (Finite q)) = Inr (trunc_rat q)"
| "py_int rt (JFloat NegZero) = Inr 0"
| "py_int rt (JFloat PosInf) = Inl OverflowError"
| "py_int rt (JFloat NegInf) = Inl OverflowError"
| "py_int rt (JFloat NaN) = Inl ValueError"
| "py_int rt (JStr s) = (case int_of_str rt s of None \<Rightarrow> Inl ValueError | Some i \<Rightarrow> Inr i)"
| "py_int rt (JList xs) = Inl TypeError"
| "py_int rt (JObj kvs) = Inl TypeError"

section \<open>merge\_diagnostics.py\<close>

text \<open>\<^verbatim>\<open>[x for x in v if isinstance(x, dict)]\<close>\<close>

fun dicts_of :: "json list \<Rightarrow> pydict list" where
  "dicts_of [] = []"
| "dicts_of (JObj kvs # xs) = kvs # dicts_of xs"
| "dicts_of (x # xs) = dicts_of xs"

text \<open>The loop of \<^verbatim>\<open>extract_items\<close> over the wrapper keys: the first key holding a list wins.\<close>

fun wrapper_items :: "pydict \<Rightarrow> string list \<Rightarrow> pydict list" where
  "wrapper_items d [] = []"
| "wrapper_items d (k # ks) =
     (case dict_get d k of JList v \<Rightarrow> dicts_of v | _ \<Rightarrow> wrapper_items d ks)"

definition extract_items :: "json \<Rightarrow> pydict list" where
  "extract_items data =
     (case data of
        JList xs \<Rightarrow> dicts_of xs
      | JObj d \<Rightarrow> wrapper_items d [''problems'', ''diagnostics'', ''items'', ''data'']
      | _ \<Rightarrow> [])"

definition merge_get_code :: "pyrt \<Rightarrow> pydict \<Rightarrow> string" where
  "merge_get_code rt d =
     (case dict_get d ''code'' of
        JObj c \<Rightarrow> py_str rt (py_or (dict_get c ''value'') (JStr []))
      | JStr s \<Rightarrow> s
      | _ \<Rightarrow> [])"

definition merge_get_file :: "pyrt \<Rightarrow> pydict \<Rightarrow> string" where
  "merge_get_file rt d =
     (let fp = py_or (dict_get d ''resource'')
                 (py_or (dict_get d ''file'') (py_or (dict_get d ''uri'') (dict_get d ''path'')));
          fp = (case fp of
                  JObj m \<Rightarrow>
                    py_or (dict_get m ''path'') (py_or (dict_get m ''fsPath'') (dict_get m ''uri''))
                | _ \<Rightarrow> fp)
      in if truthy fp then py_str rt fp else [])"

text \<open>\<^verbatim>\<open>str(x) if x is not None else ""\<close>, as \<^verbatim>\<open>get_pos\<close> ends.\<close>

definition str_or_empty :: "pyrt \<Rightarrow> json \<Rightarrow> string" where
  "str_or_empty rt v = (if v \<noteq> JNull then py_str rt v else [])"

definition merge_get_pos :: "pyrt \<Rightarrow> pydict \<Rightarrow> string \<times> string" where
  "merge_get_pos rt d =
     (let line = dict_get d ''startLineNumber''; col = dict_get d ''startColumn'' in
      if line \<noteq> JNull \<and> col \<noteq> JNull then (py_str rt line, py_str rt col)
      else
        let (line, col) =
          (case dict_get_default d ''range'' (JObj []) of
             JObj r \<Rightarrow>
               (case dict_get_default r ''start'' (JObj []) of
                  JObj s \<Rightarrow> (dict_get s ''line'', dict_get s ''character'')
                | _ \<Rightarrow> (line, col))
           | _ \<Rightarrow> (line, col))
        in (str_or_empty rt line, str_or_empty rt col))"

type_synonym canonical_key = "string \<times> string \<times> string \<times> string \<times> string"

definition diag_key :: "pyrt \<Rightarrow> pydict \<Rightarrow> canonical_key" where
  "diag_key rt d =
     (let (line, col) = merge_get_pos rt d in
      (merge_get_file rt d, merge_get_code rt d, line, col,
       py_str rt (py_or (dict_get d ''message'') (JStr []))))"

text \<open>
  The deduplication loop of \<^verbatim>\<open>main\<close>: the state is the set \<^verbatim>\<open>seen\<close> and the list
  \<^verbatim>\<open>uniq\<close>, one step per element of \<^verbatim>\<open>merged\<close>.
\<close>

definition dedup_step ::
  "pyrt \<Rightarrow> canonical_key set \<times> pydict list \<Rightarrow> pydict \<Rightarrow> canonical_key set \<times> pydict list" where
  "dedup_step rt st d =
     (let k = diag_key rt d in
      if k \<in> fst st then st else (insert k (fst st), snd st @ [d]))"

definition dedup :: "pyrt \<Rightarrow> pydict list \<Rightarrow> pydict list" where
  "dedup rt merged = snd (foldl (dedup_step rt) ({}, []) merged)"





section \<open>report\_diagnostics.py\<close>

definition MAX_INPUT_SIZE_BYTES :: nat where
  "MAX_INPUT_SIZE_BYTES = 100 * 1024 * 1024"

text \<open>\<^verbatim>\<open>text.startswith((p1, ..., pn))\<close>\<close>

definition startswith_any :: "string \<Rightarrow> string list \<Rightarrow> bool" where
  "startswith_any text ps = list_ex (\<lambda>p. prefix p text) ps"

definition sanitize_csv_cell :: "pyrt \<Rightarrow> json \<Rightarrow> string" where
  "sanitize_csv_cell rt v =
     (let text = (if v \<noteq> JNull then py_str rt v else []) in
      if startswith_any text [''='', ''+'', ''-'', ''@''] then CHR 0x27 # text else text)"

text \<open>
  \<^verbatim>\<open>get_code\<close> is annotated \<^verbatim>\<open>Optional[str]\<close> but returns whatever \<^verbatim>\<open>code["value"]\<close>
  holds; \<open>JNull\<close> is \<^verbatim>\<open>None\<close>.
\<close>

definition report_get_code :: "pydict \<Rightarrow> json" where
  "report_get_code d =
     (case dict_get d ''code'' of
        JObj c \<Rightarrow> dict_get c ''value''
      | JStr s \<Rightarrow> JStr s
      | _ \<Rightarrow> JNull)"

definition report_get_file :: "pyrt \<Rightarrow> pydict \<Rightarrow> string option" where
  "report_get_file rt d =
     (let fp = py_or (dict_get d ''resource'')
                 (py_or (dict_get d ''file'') (py_or (dict_get d ''uri'') (dict_get d ''path'')));
          fp = (case fp of
                  JObj m \<Rightarrow>
                    py_or (dict_get m ''path'') (py_or (dict_get m ''fsPath'') (dict_get m ''uri''))
                | _ \<Rightarrow> fp)
      in if truthy fp then Some (py_str rt fp) else None)"

text \<open>
  \<^verbatim>\<open>to_int_or_none\<close> catches \<^verbatim>\<open>TypeError\<close> and \<^verbatim>\<open>ValueError\<close>; any other exception of
  \<^verbatim>\<open>int\<close> leaves the function.
\<close>

definition to_int_or_none :: "pyrt \<Rightarrow> json \<Rightarrow> pyerr + int option" where
  "to_int_or_none rt v =
     (if v \<noteq> JNull then
        (case py_int rt v of
           Inr i \<Rightarrow> Inr (Some i)
         | Inl TypeError \<Rightarrow> Inr None
         | Inl ValueError \<Rightarrow> Inr None
         | Inl e \<Rightarrow> Inl e)
      else Inr None)"

text \<open>A tuple display evaluates left to right; the first exception leaves it.\<close>

definition py_pair :: "pyerr + 'a \<Rightarrow> pyerr + 'b \<Rightarrow> pyerr + ('a \<times> 'b)" where
  "py_pair a b =
     (case a of Inl e \<Rightarrow> Inl e
      | Inr x \<Rightarrow> (case b of Inl e \<Rightarrow> Inl e | Inr y \<Rightarrow> Inr (x, y)))"

definition report_get_pos :: "pyrt \<Rightarrow> pydict \<Rightarrow> pyerr + (int option \<times> int option)" where
  "report_get_pos rt d =
     (let line = dict_get d ''startLineNumber''; col = dict_get d ''startColumn'' in
      if line \<noteq> JNull \<and> col \<noteq> JNull then py_pair (to_int_or_none rt line) (to_int_or_none rt col)
      else
        let r = (case dict_get_default d ''range'' (JObj []) of JObj r \<Rightarrow> r | _ \<Rightarrow> []);
            s = (case dict_get_default r ''start'' (JObj []) of JObj s \<Rightarrow> s | _ \<Rightarrow> []);
            line = dict_get s ''line'';
            col = dict_get s ''character''
        in py_pair (to_int_or_none rt line) (to_int_or_none rt col))"

fun is_str :: "json \<Rightarrow> bool" where
  "is_str (JStr s) = True"
| "is_str _ = False"

definition is_valid_diagnostic_item :: "pydict \<Rightarrow> bool" where
  "is_valid_diagnostic_item item =
     (let source = dict_get item ''source''; message = dict_get item ''message'' in
      is_str source \<and> is_str message)"

record report_args =
  arg_source :: string
  arg_code :: string
  arg_message_contains :: string
  arg_version :: string
  arg_day :: string
  arg_max_items :: int

text \<open>
  \<^verbatim>\<open>needle in hay\<close> for a \<^verbatim>\<open>str\<close> needle: a substring test on a \<^verbatim>\<open>str\<close>, membership
  in a list, key membership in a dict, \<^verbatim>\<open>TypeError\<close> on anything else.
\<close>

fun str_contains :: "string \<Rightarrow> string \<Rightarrow> bool" where
  "str_contains needle [] = (needle = [])"
| "str_contains needle (c # cs) = (prefix needle (c # cs) \<or> str_contains needle cs)"

fun py_in :: "string \<Rightarrow> json \<Rightarrow> pyerr + bool" where
  "py_in needle (JStr hay) = Inr (str_contains needle hay)"
| "py_in needle (JList xs) = Inr (JStr needle \<in> set xs)"
| "py_in needle (JObj kvs) = Inr (needle \<in> fst ` set kvs)"
| "py_in needle _ = Inl TypeError"

definition keep :: "report_args \<Rightarrow> pydict \<Rightarrow> pyerr + bool" where
  "keep args d =
     (if arg_source args \<noteq> ''*'' \<and> dict_get d ''source'' \<noteq> JStr (arg_source args) then Inr False
      else if arg_code args \<noteq> [] \<and> report_get_code d \<noteq> JStr (arg_code args) then Inr False
      else if arg_message_contains args \<noteq> [] then
        (case py_in (arg_message_contains args) (dict_get_default d ''message'' (JStr [])) of
           Inl e \<Rightarrow> Inl e
         | Inr b \<Rightarrow> Inr b)
      else Inr True)"

text \<open>\<^verbatim>\<open>[d for d in valid_items if keep(d)]\<close>: an exception of \<^verbatim>\<open>keep\<close> leaves the comprehension.\<close>

fun filter_keep :: "report_args \<Rightarrow> pydict list \<Rightarrow> pyerr + pydict list" where
  "filter_keep args [] = Inr []"
| "filter_keep args (d # ds) =
     (case keep args d of
        Inl e \<Rightarrow> Inl e
      | Inr b \<Rightarrow>
          (case filter_keep args ds of
             Inl e \<Rightarrow> Inl e
           | Inr rest \<Rightarrow> Inr (if b then d # rest else rest)))"

text \<open>
  A \<^verbatim>\<open>Counter\<close> is a dict: its items stand in the order in which their keys were first
  inserted. \<^verbatim>\<open>most_common()\<close> is \<^verbatim>\<open>sorted(items, key=itemgetter(1), reverse=True)\<close>, a
  stable sort by descending count.
\<close>

type_synonym counter = "(string \<times> nat) list"

fun counter_incr :: "counter \<Rightarrow> string \<Rightarrow> counter" where
  "counter_incr [] k = [(k, 1)]"
| "counter_incr ((k', n) # c) k = (if k' = k then (k', n + 1) # c else (k', n) # counter_incr c k)"

definition most_common :: "counter \<Rightarrow> counter" where
  "most_common c = sort_key (\<lambda>kn. - int (snd kn)) c"

text \<open>The counting loop of \<^verbatim>\<open>main\<close>: \<^verbatim>\<open>fp = get_file(d); if fp: per_file[fp] += 1\<close>.\<close>

definition count_file :: "pyrt \<Rightarrow> counter \<Rightarrow> pydict \<Rightarrow> counter" where
  "count_file rt per_file d =
     (case report_get_file rt d of
        Some fp \<Rightarrow> if fp \<noteq> [] then counter_incr per_file fp else per_file
      | None \<Rightarrow> per_file)"

text \<open>A cell handed to \<^verbatim>\<open>csv.writer\<close>: a \<^verbatim>\<open>str\<close> or an \<^verbatim>\<open>int\<close>.\<close>

datatype cell = CStr string | CInt int

definition simple_header :: "cell list" where
  "simple_header = [CStr ''day'', CStr ''version'', CStr ''file'', CStr ''count'']"

definition simple_rows :: "pyrt \<Rightarrow> counter \<Rightarrow> cell list list" where
  "simple_rows rt per_file =
     map (\<lambda>(fp, n). [CStr (sanitize_csv_cell rt (JStr fp)), CInt (int n)]) (most_common per_file)"

definition detailed_header :: "cell list" where
  "detailed_header =
     [CStr ''day'', CStr ''version'', CStr ''file'', CStr ''line'', CStr ''column'',
      CStr ''code'', CStr ''source'', CStr ''message'']"

text \<open>\<^verbatim>\<open>line if line is not None else ""\<close>\<close>

definition pos_cell :: "int option \<Rightarrow> cell" where
  "pos_cell p = (case p of Some i \<Rightarrow> CInt i | None \<Rightarrow> CStr [])"

definition detailed_row :: "pyrt \<Rightarrow> report_args \<Rightarrow> pydict \<Rightarrow> pyerr + cell list" where
  "detailed_row rt args d =
     (let fp = (case report_get_file rt d of Some s \<Rightarrow> if s \<noteq> [] then s else [] | None \<Rightarrow> []) in
      case report_get_pos rt d of
        Inl e \<Rightarrow> Inl e
      | Inr (line, col) \<Rightarrow>
          Inr [CStr (sanitize_csv_cell rt (JStr (arg_day args))),
               CStr (sanitize_csv_cell rt (JStr (arg_version args))),
               CStr (sanitize_csv_cell rt (JStr fp)),
               pos_cell line,
               pos_cell col,
               CStr (sanitize_csv_cell rt (py_or (report_get_code d) (JStr []))),
               CStr (sanitize_csv_cell rt (dict_get_default d ''source'' (JStr []))),
               CStr (sanitize_csv_cell rt (dict_get_default d ''message'' (JStr [])))])"

text \<open>
  The loop writing the detailed table: the rows written so far stay in the file when a
  row raises.
\<close>

fun write_rows :: "pyrt \<Rightarrow> report_args \<Rightarrow> pydict list \<Rightarrow> cell list list \<times> pyerr option" where
  "write_rows rt args [] = ([], None)"
| "write_rows rt args (d # ds) =
     (case detailed_row rt args d of
        Inl e \<Rightarrow> ([], Some e)
      | Inr row \<Rightarrow> (let (rows, err) = write_rows rt args ds in (row # rows, err)))"

datatype outcome = Completed | SysExit int | Uncaught pyerr

record report_out =
  status :: outcome
  skipped_warning :: "nat option"
  simple_csv :: "cell list list option"
  detailed_csv :: "cell list list option"

text \<open>
  The input file: \<^verbatim>\<open>os.path.getsize\<close> raises \<^verbatim>\<open>OSError\<close>, or gives a size and
  \<^verbatim>\<open>json.load\<close> then raises \<^verbatim>\<open>JSONDecodeError\<close>, raises something else, or returns.
\<close>

datatype load_result = JSONDecodeError | LoadRaises pyerr | Loaded json

datatype report_file = StatFails | Stat nat load_result

definition truncate_items :: "int \<Rightarrow> pydict list \<Rightarrow> pydict list" where
  "truncate_items max_items filtered =
     (if max_items > 0 then take (nat max_items) filtered else filtered)"

definition report_body :: "pyrt \<Rightarrow> report_args \<Rightarrow> json \<Rightarrow> report_out" where
  "report_body rt args data =
     (let items = extract_items data;
          valid_items = filter is_valid_diagnostic_item items;
          skipped_count = length items - length valid_items;
          warning = (if skipped_count \<noteq> 0 then Some skipped_count else None)
      in case filter_keep args valid_items of
           Inl e \<Rightarrow>
             \<lparr>status = Uncaught e, skipped_warning = warning, simple_csv = None,
              detailed_csv = None\<rparr>
         | Inr filtered \<Rightarrow>
             if arg_max_items args < 0 then
               \<lparr>status = SysExit 2, skipped_warning = warning, simple_csv = None,
                detailed_csv = None\<rparr>
             else
               let filtered = truncate_items (arg_max_items args) filtered;
                   per_file = foldl (count_file rt) [] filtered;
                   simple = simple_header # simple_rows rt per_file;
                   (rows, err) = write_rows rt args filtered
               in \<lparr>status = (case err of None \<Rightarrow> Completed | Some e \<Rightarrow> Uncaught e),
                    skipped_warning = warning, simple_csv = Some simple,
                    detailed_csv = Some (detailed_header # rows)\<rparr>)"

definition report_main :: "pyrt \<Rightarrow> report_args \<Rightarrow> report_file \<Rightarrow> report_out" where
  "report_main rt args file =
     (case file of
        StatFails \<Rightarrow>
          \<lparr>status = SysExit 2, skipped_warning = None, simple_csv = None, detailed_csv = None\<rparr>
      | Stat input_size loaded \<Rightarrow>
          if input_size > MAX_INPUT_SIZE_BYTES then
            \<lparr>status = SysExit 2, skipped_warning = None, simple_csv = None, detailed_csv = None\<rparr>
          else
            (case loaded of
               JSONDecodeError \<Rightarrow>
                 \<lparr>status = SysExit 2, skipped_warning = None, simple_csv = None,
                  detailed_csv = None\<rparr>
             | LoadRaises e \<Rightarrow>
                 \<lparr>status = Uncaught e, skipped_warning = None, simple_csv = None,
                  detailed_csv = None\<rparr>
             | Loaded data \<Rightarrow> report_body rt args data))"

section \<open>Auxiliary definitions for the properties\<close>

text \<open>
  The records a deduplication pass emits when the keys in \<open>S\<close> have been seen already:
  the recursive reading of the loop, used to reason about \<open>dedup\<close>.
\<close>

fun first_seen :: "pyrt \<Rightarrow> canonical_key set \<Rightarrow> pydict list \<Rightarrow> pydict list" where
  "first_seen rt S [] = []"
| "first_seen rt S (d # ds) =
     (if diag_key rt d \<in> S then first_seen rt S ds
      else d # first_seen rt (insert (diag_key rt d) S) ds)"

text \<open>
  A concrete runtime for the closed examples below. It renders an integral float as
  CPython does below \<open>10^16\<close>, quotes a string that holds no quote, backslash or control
  character as CPython does, and reads a plain decimal literal with an optional sign;
  the examples use it on such inputs only.
\<close>

definition digit_val :: "char \<Rightarrow> nat option" where
  "digit_val c = map_of (zip ''0123456789'' [0, 1, 2, 3, 4, 5, 6, 7, 8, 9]) c"

fun digits_val :: "nat \<Rightarrow> string \<Rightarrow> nat option" where
  "digits_val acc [] = Some acc"
| "digits_val acc (c # cs) =
     (case digit_val c of None \<Rightarrow> None | Some v \<Rightarrow> digits_val (10 * acc + v) cs)"

definition plain_int_of_str :: "string \<Rightarrow> int option" where
  "plain_int_of_str s =
     (case s of
        [] \<Rightarrow> None
      | c # cs \<Rightarrow>
          if c = CHR ''-'' then (if cs = [] then None else map_option (\<lambda>n. - int n) (digits_val 0 cs))
          else if c = CHR ''+'' then (if cs = [] then None else map_option int (digits_val 0 cs))
          else map_option int (digits_val 0 s))"

definition plain_repr_float :: "pyfloat \<Rightarrow> string" where
  "plain_repr_float f =
     (case f of
        Finite q \<Rightarrow> str_of_int (trunc_rat q) @ ''.0''
      | NegZero \<Rightarrow> ''-0.0''
      | PosInf \<Rightarrow> ''inf''
      | NegInf \<Rightarrow> ''-inf''
      | NaN \<Rightarrow> ''nan'')"

definition plain_rt :: pyrt where
  "plain_rt =
     \<lparr>repr_float = plain_repr_float,
      repr_str = (\<lambda>s. CHR 0x27 # s @ [CHR 0x27]),
      int_of_str = plain_int_of_str\<rparr>"



text \<open>
  The position rule in the specification's words: \<^verbatim>\<open>startLineNumber\<close> and
  \<^verbatim>\<open>startColumn\<close> when both are present (not \<^verbatim>\<open>None\<close>), otherwise
  \<^verbatim>\<open>range.start.line\<close> and \<^verbatim>\<open>range.start.character\<close>, each absent when the path to
  it does not lead through mappings.
\<close>

definition spec_pos_fields :: "pydict \<Rightarrow> json \<times> json" where
  "spec_pos_fields d =
     (if dict_get d ''startLineNumber'' \<noteq> JNull \<and> dict_get d ''startColumn'' \<noteq> JNull
      then (dict_get d ''startLineNumber'', dict_get d ''startColumn'')
      else
        (case map_of d ''range'' of
           None \<Rightarrow> (JNull, JNull)
         | Some (JObj r) \<Rightarrow>
             (case map_of r ''start'' of
                None \<Rightarrow> (JNull, JNull)
              | Some (JObj s) \<Rightarrow> (dict_get s ''line'', dict_get s ''character'')
              | Some _ \<Rightarrow> (JNull, JNull))
         | Some _ \<Rightarrow> (JNull, JNull)))"

text \<open>\<^verbatim>\<open>range\<close> and \<^verbatim>\<open>range.start\<close> are mappings wherever they are present.\<close>

definition range_well_shaped :: "pydict \<Rightarrow> bool" where
  "range_well_shaped d =
     (case map_of d ''range'' of
        None \<Rightarrow> True
      | Some (JObj r) \<Rightarrow>
          (case map_of r ''start'' of None \<Rightarrow> True | Some (JObj s) \<Rightarrow> True | Some _ \<Rightarrow> False)
      | Some _ \<Rightarrow> False)"

text \<open>
  The file rule in the specification's words: the value of the first key present, and
  for a mapping the value of its first key present.
\<close>

fun spec_first_present :: "pydict \<Rightarrow> string list \<Rightarrow> json option" where
  "spec_first_present d [] = None"
| "spec_first_present d (k # ks) =
     (case map_of d k of Some v \<Rightarrow> Some v | None \<Rightarrow> spec_first_present d ks)"

definition spec_get_file :: "pyrt \<Rightarrow> pydict \<Rightarrow> string" where
  "spec_get_file rt d =
     (case spec_first_present d [''resource'', ''file'', ''uri'', ''path''] of
        None \<Rightarrow> []
      | Some (JObj m) \<Rightarrow>
          (case spec_first_present m [''path'', ''fsPath'', ''uri''] of
             None \<Rightarrow> []
           | Some w \<Rightarrow> py_str rt w)
      | Some v \<Rightarrow> py_str rt v)"

text \<open>
  The file rule as the scripts apply it: \<^verbatim>\<open>or\<close> passes over every falsy value
  (\<^verbatim>\<open>None\<close>, \<^verbatim>\<open>False\<close>, zero, an empty string, list or mapping), so the first truthy
  value counts, not the first key present.
\<close>

definition first_truthy :: "pydict \<Rightarrow> string list \<Rightarrow> json option" where
  "first_truthy d ks = find truthy (map (dict_get d) ks)"

definition file_of :: "pydict \<Rightarrow> json option" where
  "file_of d =
     (case first_truthy d [''resource'', ''file'', ''uri'', ''path''] of
        None \<Rightarrow> None
      | Some (JObj m) \<Rightarrow> first_truthy m [''path'', ''fsPath'', ''uri'']
      | Some v \<Rightarrow> Some v)"

text \<open>
  The sanitization rule in the specification's words: a value that starts with one of
  \<^verbatim>\<open>= + - @\<close> gets the neutralizing marker (an apostrophe) in front, any other value
  stays as it is.
\<close>

definition neutralized :: "string \<Rightarrow> string" where
  "neutralized t =
     (case t of [] \<Rightarrow> [] | c # cs \<Rightarrow> if c \<in> set ''=+-@'' then CHR 0x27 # t else t)"

text \<open>
  The records that reach the tables: valid, kept by the filters, cut at the cap.
\<close>

definition selected :: "report_args \<Rightarrow> pydict list \<Rightarrow> pydict list" where
  "selected args items =
     truncate_items (arg_max_items args)
       (filter (\<lambda>d. is_valid_diagnostic_item d \<and> keep args d = Inr True) items)"

text \<open>
  The run of \<^verbatim>\<open>test_day_and_version_are_present\<close> in the repository's tests: its
  payload, with \<^verbatim>\<open>--day 2026-01-01 --version release-42\<close> and the defaults otherwise.
\<close>

definition test_args :: report_args where
  "test_args =
     \<lparr>arg_source = ''clangd'', arg_code = [], arg_message_contains = [],
      arg_version = ''release-42'', arg_day = ''2026-01-01'', arg_max_items = 0\<rparr>"

definition test_payload :: json where
  "test_payload =
     JObj [(''diagnostics'',
        JList [JObj [(''source'', JStr ''clangd''), (''message'', JStr ''ok''),
                     (''file'', JStr ''a.c''), (''code'', JStr ''unused-includes'')]])]"

text \<open>
  A document whose first record has the line \<^verbatim>\<open>1e999\<close>, which \<^verbatim>\<open>json.load\<close> reads as
  the float infinity, and whose second record has no file.
\<close>

definition overflow_payload :: json where
  "overflow_payload =
     JObj [(''diagnostics'',
        JList [JObj [(''source'', JStr ''clangd''), (''message'', JStr ''m1''),
                     (''file'', JStr ''a.c''), (''startLineNumber'', JFloat PosInf),
                     (''startColumn'', JInt 1)],
               JObj [(''source'', JStr ''clangd''), (''message'', JStr ''m2'')]])]"

text \<open>
  The derived files that the counting loop counts, in record order: a record whose
  derived file is \<^verbatim>\<open>None\<close> or empty contributes none.
\<close>

definition counted_files :: "pyrt \<Rightarrow> pydict list \<Rightarrow> string list" where
  "counted_files rt sel =
     concat (map (\<lambda>d. case report_get_file rt d of
                         Some fp \<Rightarrow> if fp \<noteq> [] then [fp] else []
                       | None \<Rightarrow> []) sel)"

text \<open>The distinct elements of a list in the order of their first occurrence.\<close>

definition first_seen_order :: "string list \<Rightarrow> string list" where
  "first_seen_order fs = rev (remdups (rev fs))"

text \<open>The counter that counting the list \<open>fs\<close> builds: one item per file, in first-seen order.\<close>

definition counter_of :: "string list \<Rightarrow> counter" where
  "counter_of fs = map (\<lambda>f. (f, count_list fs f)) (first_seen_order fs)"

text \<open>The items of the per-file table: \<^verbatim>\<open>per_file.most_common()\<close> after the counting loop.\<close>

definition summary :: "pyrt \<Rightarrow> pydict list \<Rightarrow> counter" where
  "summary rt filtered = most_common (foldl (count_file rt) [] filtered)"

section \<open>Properties of the merge script\<close>

lemmas key_eval =
  diag_key_def merge_get_pos_def merge_get_file_def merge_get_code_def dict_get_def
  dict_get_default_def py_or_def py_str_def str_or_empty_def Let_def

subsection \<open>The deduplication loop\<close>

lemma foldl_dedup_step:
  "foldl (dedup_step rt) (S, U) xs = (S \<union> diag_key rt ` set xs, U @ first_seen rt S xs)"
  by (induction xs arbitrary: S U) (auto simp: dedup_step_def Let_def)

lemma dedup_first_seen: "dedup rt xs = first_seen rt {} xs"
  by (simp add: dedup_def foldl_dedup_step)

lemma first_seen_covered: "diag_key rt ` set xs \<subseteq> S \<Longrightarrow> first_seen rt S xs = []"
  by (induction xs) auto

lemma first_seen_append:
  "first_seen rt S (xs @ ys) = first_seen rt S xs @ first_seen rt (S \<union> diag_key rt ` set xs) ys"
proof (induction xs arbitrary: S)
  case Nil
  then show ?case by simp
next
  case (Cons d ds)
  show ?case
  proof (cases "diag_key rt d \<in> S")
    case True
    then have "insert (diag_key rt d) (S \<union> diag_key rt ` set ds) = S \<union> diag_key rt ` set ds"
      by auto
    with True show ?thesis by (simp add: Cons.IH)
  next
    case False
    then show ?thesis by (simp add: Cons.IH)
  qed
qed

lemma first_seen_keys: "diag_key rt ` set (first_seen rt S xs) = diag_key rt ` set xs - S"
  by (induction xs arbitrary: S) auto

lemma first_seen_distinct: "distinct (map (diag_key rt) (first_seen rt S xs))"
  by (induction xs arbitrary: S) (auto simp: first_seen_keys)

lemma first_seen_id:
  "distinct (map (diag_key rt) xs) \<Longrightarrow> diag_key rt ` set xs \<inter> S = {} \<Longrightarrow> first_seen rt S xs = xs"
  by (induction xs arbitrary: S) auto

lemma first_seen_nths:
  "first_seen rt S xs = nths xs {i. diag_key rt (xs ! i) \<notin> S \<union> diag_key rt ` set (take i xs)}"
proof (induction xs arbitrary: S)
  case Nil
  then show ?case by simp
next
  case (Cons d ds)
  let ?k = "diag_key rt d"
  let ?A = "{i. diag_key rt ((d # ds) ! i) \<notin> S \<union> diag_key rt ` set (take i (d # ds))}"
  let ?B = "{j. diag_key rt (ds ! j) \<notin> insert ?k S \<union> diag_key rt ` set (take j ds)}"
  have tail: "{j. Suc j \<in> ?A} = ?B"
    by auto
  have head: "0 \<in> ?A \<longleftrightarrow> ?k \<notin> S"
    by simp
  have IH: "first_seen rt (insert ?k S) ds = nths ds ?B"
    by (rule Cons.IH)
  have split: "nths (d # ds) ?A = (if ?k \<notin> S then [d] else []) @ nths ds ?B"
    using tail head by (simp only: nths_Cons)
  show ?case
  proof (cases "?k \<in> S")
    case True
    then have "insert ?k S = S"
      by (rule insert_absorb)
    with True IH split show ?thesis
      by simp
  next
    case False
    with IH split show ?thesis
      by simp
  qed
qed

text \<open>
  C1. Deduplication is idempotent: deduplicating a sequence of records followed by
  itself gives what deduplicating the sequence gives, and deduplicating a deduplicated
  sequence returns it unchanged. The key \<open>diag_key rt d\<close> is a function of the record
  (and of the interpreter's renderings) alone.
\<close>

theorem dedup_idempotent:
  "dedup rt (xs @ xs) = dedup rt xs \<and> dedup rt (dedup rt xs) = dedup rt xs"
proof
  show "dedup rt (xs @ xs) = dedup rt xs"
    by (simp add: dedup_first_seen first_seen_append first_seen_covered)
  show "dedup rt (dedup rt xs) = dedup rt xs"
    by (simp add: dedup_first_seen first_seen_id first_seen_distinct)
qed

text \<open>
  C2. Deduplication keeps the first-seen order: its output is the subsequence of the
  records at the positions whose key occurs at no earlier position, and an input with
  pairwise distinct keys comes out unchanged.
\<close>

theorem dedup_first_occurrences:
  "dedup rt xs = nths xs {i. diag_key rt (xs ! i) \<notin> diag_key rt ` set (take i xs)}
   \<and> (distinct (map (diag_key rt) xs) \<longrightarrow> dedup rt xs = xs)"
proof
  show "dedup rt xs = nths xs {i. diag_key rt (xs ! i) \<notin> diag_key rt ` set (take i xs)}"
    by (simp add: dedup_first_seen first_seen_nths)
  show "distinct (map (diag_key rt) xs) \<longrightarrow> dedup rt xs = xs"
    by (simp add: dedup_first_seen first_seen_id)
qed

theorem dedup_first_occurrences_witness:
  "distinct (map (diag_key plain_rt) [[(''message'', JStr ''m1'')], [(''message'', JStr ''m2'')]])
   \<and> dedup plain_rt [[(''message'', JStr ''m1'')], [(''message'', JStr ''m2'')]]
       = [[(''message'', JStr ''m1'')], [(''message'', JStr ''m2'')]]"
proof -
  have d: "distinct (map (diag_key plain_rt)
      [[(''message'', JStr ''m1'')], [(''message'', JStr ''m2'')]])"
    by (simp add: key_eval)
  from d dedup_first_occurrences
    [of plain_rt "[[(''message'', JStr ''m1'')], [(''message'', JStr ''m2'')]]", THEN conjunct2]
  show ?thesis by blast
qed

subsection \<open>The reading loop and the exit code\<close>






section \<open>Field extraction in both scripts\<close>

subsection \<open>Positions\<close>

lemma report_get_pos_fields:
  "report_get_pos rt d =
     py_pair (to_int_or_none rt (fst (spec_pos_fields d)))
             (to_int_or_none rt (snd (spec_pos_fields d)))"
  by (auto simp: report_get_pos_def spec_pos_fields_def Let_def dict_get_def dict_get_default_def
      split: option.splits json.splits)

lemma py_int_no_oserror: "py_int rt v \<noteq> Inl OSError"
proof (cases v)
  case (JFloat f)
  then show ?thesis by (cases f) simp_all
qed (simp_all split: option.splits)

lemma to_int_or_none_cases:
  "to_int_or_none rt v =
     (case py_int rt v of
        Inr i \<Rightarrow> Inr (Some i)
      | Inl e \<Rightarrow> if e = OverflowError then Inl OverflowError else Inr None)"
  using py_int_no_oserror [of rt v]
  by (auto simp: to_int_or_none_def split: sum.splits pyerr.splits)

lemma merge_get_pos_fields:
  "merge_get_pos rt d =
     (let (line, col) =
        (if (dict_get d ''startLineNumber'' \<noteq> JNull \<and> dict_get d ''startColumn'' \<noteq> JNull)
            \<or> range_well_shaped d
         then spec_pos_fields d
         else (dict_get d ''startLineNumber'', dict_get d ''startColumn''))
      in (str_or_empty rt line, str_or_empty rt col))"
  by (auto simp: merge_get_pos_def spec_pos_fields_def range_well_shaped_def Let_def dict_get_def
      dict_get_default_def str_or_empty_def
      split: option.splits json.splits)

text \<open>
  C4 (as stated) fails for the canonical key: a line and a column that \<^verbatim>\<open>int\<close> rejects
  (the report script turns each into the unset marker) stand in the key as they are,
  not as the empty string.
\<close>

theorem merge_key_keeps_non_integers:
  "to_int_or_none plain_rt (JStr ''abc'') = Inr None
   \<and> to_int_or_none plain_rt (JStr ''not-an-int'') = Inr None
   \<and> merge_get_pos plain_rt
        [(''startLineNumber'', JStr ''abc''), (''startColumn'', JStr ''not-an-int'')]
      = (''abc'', ''not-an-int'')"
  by (simp add: to_int_or_none_def plain_rt_def plain_int_of_str_def digit_val_def key_eval)

text \<open>
  C4 (amended). In the report script the line and the column are \<^verbatim>\<open>int\<close> of the values
  the position rule selects: the integer when \<^verbatim>\<open>int\<close> returns one, the unset marker when
  the value is absent or \<^verbatim>\<open>None\<close> or \<^verbatim>\<open>int\<close> raises \<^verbatim>\<open>TypeError\<close> or \<^verbatim>\<open>ValueError\<close>.
  In the merge script the key holds \<^verbatim>\<open>str\<close> of the selected values with no integer
  coercion, the empty string for an absent one; it selects by the same rule when
  \<^verbatim>\<open>range\<close> and \<^verbatim>\<open>range.start\<close> are mappings or absent, and otherwise keeps whichever
  of \<^verbatim>\<open>startLineNumber\<close> and \<^verbatim>\<open>startColumn\<close> is present. The merge extraction is total.
\<close>

theorem position_extraction:
  "report_get_pos rt d =
     py_pair (to_int_or_none rt (fst (spec_pos_fields d)))
             (to_int_or_none rt (snd (spec_pos_fields d)))
   \<and> to_int_or_none rt v =
       (case py_int rt v of
          Inr i \<Rightarrow> Inr (Some i)
        | Inl e \<Rightarrow> if e = OverflowError then Inl OverflowError else Inr None)
   \<and> pos_cell None = CStr []
   \<and> merge_get_pos rt d =
       (let (line, col) =
          (if (dict_get d ''startLineNumber'' \<noteq> JNull \<and> dict_get d ''startColumn'' \<noteq> JNull)
              \<or> range_well_shaped d
           then spec_pos_fields d
           else (dict_get d ''startLineNumber'', dict_get d ''startColumn''))
        in (str_or_empty rt line, str_or_empty rt col))"
  using report_get_pos_fields [of rt d] to_int_or_none_cases [of rt v]
    merge_get_pos_fields [of rt d]
  by (simp only: pos_cell_def option.case simp_thms)

text \<open>
  The exception that \<^verbatim>\<open>to_int_or_none\<close> does not catch: an infinite float, which
  \<^verbatim>\<open>json.load\<close> yields for \<^verbatim>\<open>1e999\<close>, leaves \<^verbatim>\<open>get_pos\<close> of the report script with
  \<^verbatim>\<open>OverflowError\<close>.
\<close>

lemma report_get_pos_overflow:
  "report_get_pos plain_rt [(''startLineNumber'', JFloat PosInf), (''startColumn'', JInt 1)]
     = Inl OverflowError"
  by (simp add: report_get_pos_def to_int_or_none_def py_pair_def key_eval)

subsection \<open>Files\<close>

lemma or4_none: "find truthy [a, b, c, e] = None \<Longrightarrow> \<not> truthy (py_or a (py_or b (py_or c e)))"
  by (auto simp: py_or_def split: if_splits)

lemma or4_some:
  "find truthy [a, b, c, e] = Some v \<Longrightarrow> py_or a (py_or b (py_or c e)) = v \<and> truthy v"
  by (auto simp: py_or_def split: if_splits)

lemma or3_none: "find truthy [a, b, c] = None \<Longrightarrow> \<not> truthy (py_or a (py_or b c))"
  by (auto simp: py_or_def split: if_splits)

lemma or3_some: "find truthy [a, b, c] = Some v \<Longrightarrow> py_or a (py_or b c) = v \<and> truthy v"
  by (auto simp: py_or_def split: if_splits)

lemma file_value:
  fixes d :: pydict
  defines "fp0 \<equiv> py_or (dict_get d ''resource'')
                 (py_or (dict_get d ''file'') (py_or (dict_get d ''uri'') (dict_get d ''path'')))"
  defines "fp \<equiv> (case fp0 of
                  JObj m \<Rightarrow>
                    py_or (dict_get m ''path'') (py_or (dict_get m ''fsPath'') (dict_get m ''uri''))
                | _ \<Rightarrow> fp0)"
  shows "(case file_of d of None \<Rightarrow> \<not> truthy fp | Some v \<Rightarrow> fp = v \<and> truthy v)"
proof (cases "first_truthy d [''resource'', ''file'', ''uri'', ''path'']")
  case None
  then have "find truthy [dict_get d ''resource'', dict_get d ''file'', dict_get d ''uri'',
      dict_get d ''path''] = None"
    unfolding first_truthy_def list.map .
  then have f: "\<not> truthy fp0"
    unfolding fp0_def by (rule or4_none)
  then have "\<not> truthy fp"
    by (cases fp0) (simp_all add: fp_def dict_get_def dict_get_default_def py_or_def)
  with None show ?thesis
    by (simp add: file_of_def)
next
  case (Some v)
  then have "find truthy [dict_get d ''resource'', dict_get d ''file'', dict_get d ''uri'',
      dict_get d ''path''] = Some v"
    unfolding first_truthy_def list.map .
  then have "fp0 = v \<and> truthy v"
    unfolding fp0_def by (rule or4_some)
  then have v: "fp0 = v" "truthy v"
    by simp_all
  show ?thesis
  proof (cases "\<exists>m. v = JObj m")
    case True
    then obtain m where m: "v = JObj m" by blast
    have fp: "fp = py_or (dict_get m ''path'') (py_or (dict_get m ''fsPath'') (dict_get m ''uri''))"
      using v m by (simp add: fp_def)
    have fo: "file_of d = find truthy [dict_get m ''path'', dict_get m ''fsPath'', dict_get m ''uri'']"
      using Some m by (simp add: file_of_def first_truthy_def del: find.simps)
    show ?thesis
    proof (cases "find truthy [dict_get m ''path'', dict_get m ''fsPath'', dict_get m ''uri'']")
      case None
      from or3_none [OF None] show ?thesis
        unfolding fo fp None by simp
    next
      case (Some w)
      from or3_some [OF Some] show ?thesis
        unfolding fo fp Some by simp
    qed
  next
    case False
    then have "fp = v"
      using v by (cases v) (simp_all add: fp_def)
    moreover have "file_of d = Some v"
      using Some False by (cases v) (simp_all add: file_of_def)
    ultimately show ?thesis
      using v by simp
  qed
qed

lemma merge_get_file_of:
  "merge_get_file rt d = (case file_of d of None \<Rightarrow> [] | Some v \<Rightarrow> py_str rt v)"
  using file_value [of d] unfolding merge_get_file_def Let_def
  by (simp split: option.splits)

lemma report_get_file_of:
  "report_get_file rt d = map_option (py_str rt) (file_of d)"
  using file_value [of d] unfolding report_get_file_def Let_def
  by (simp split: option.splits)


lemma file_of_truthy: "file_of d = Some v \<Longrightarrow> truthy v"
  using file_value [of d] by simp

lemma str_of_nat_nonempty: "str_of_nat n \<noteq> []"
  by (subst str_of_nat.simps) simp

lemma py_str_nonempty: "\<forall>f. repr_float rt f \<noteq> [] \<Longrightarrow> truthy v \<Longrightarrow> py_str rt v \<noteq> []"
  by (cases v) (simp_all add: py_str_def str_of_int_def str_of_nat_nonempty)

lemma plain_repr_float_nonempty: "\<forall>f. repr_float plain_rt f \<noteq> []"
  by (simp add: plain_rt_def plain_repr_float_def split: pyfloat.splits)

text \<open>
  C5 (as stated) fails: a key that is present with a falsy value is passed over. With
  \<^verbatim>\<open>resource\<close> holding the empty string or \<^verbatim>\<open>false\<close>, the first key present gives
  the empty string or \<^verbatim>\<open>False\<close>; the script gives the value of \<^verbatim>\<open>file\<close>.
\<close>

theorem get_file_skips_falsy:
  "merge_get_file plain_rt [(''resource'', JStr []), (''file'', JStr ''a.c'')] = ''a.c''
   \<and> spec_get_file plain_rt [(''resource'', JStr []), (''file'', JStr ''a.c'')] = []
   \<and> merge_get_file plain_rt [(''resource'', JBool False), (''file'', JStr ''a.c'')] = ''a.c''
   \<and> spec_get_file plain_rt [(''resource'', JBool False), (''file'', JStr ''a.c'')] = ''False''"
  by (simp add: spec_get_file_def key_eval)

text \<open>
  C5 (amended). The derived file is the first truthy value among \<^verbatim>\<open>resource\<close>,
  \<^verbatim>\<open>file\<close>, \<^verbatim>\<open>uri\<close>, \<^verbatim>\<open>path\<close>, and when that value is a mapping the first truthy
  value among its \<^verbatim>\<open>path\<close>, \<^verbatim>\<open>fsPath\<close>, \<^verbatim>\<open>uri\<close>, rendered by \<^verbatim>\<open>str\<close>; when there is no
  such value the merge script gives the empty string and the report script \<^verbatim>\<open>None\<close>.
\<close>

theorem get_file_first_truthy:
  "merge_get_file rt d = (case file_of d of None \<Rightarrow> [] | Some v \<Rightarrow> py_str rt v)
   \<and> report_get_file rt d = map_option (py_str rt) (file_of d)"
  by (simp only: merge_get_file_of report_get_file_of simp_thms)

text \<open>
  C10. Both scripts agree on the file identity: the merge script's file is the report
  script's, with the empty string for \<^verbatim>\<open>None\<close>; and since \<^verbatim>\<open>str\<close> of a truthy value is
  not empty (for a float: its \<^verbatim>\<open>repr\<close> is not), the report script returns \<^verbatim>\<open>None\<close>
  exactly when the merge script's file is empty, and the same string otherwise.
\<close>

theorem file_identity_agrees:
  "merge_get_file rt d = (case report_get_file rt d of None \<Rightarrow> [] | Some s \<Rightarrow> s)
   \<and> ((\<forall>f. repr_float rt f \<noteq> []) \<longrightarrow>
        report_get_file rt d =
          (if merge_get_file rt d = [] then None else Some (merge_get_file rt d)))"
proof
  show "merge_get_file rt d = (case report_get_file rt d of None \<Rightarrow> [] | Some s \<Rightarrow> s)"
    by (simp add: merge_get_file_of report_get_file_of split: option.splits)
  show "(\<forall>f. repr_float rt f \<noteq> []) \<longrightarrow>
        report_get_file rt d =
          (if merge_get_file rt d = [] then None else Some (merge_get_file rt d))"
  proof
    assume nonempty: "\<forall>f. repr_float rt f \<noteq> []"
    show "report_get_file rt d =
          (if merge_get_file rt d = [] then None else Some (merge_get_file rt d))"
    proof (cases "file_of d")
      case None
      then show ?thesis
        by (simp add: merge_get_file_of report_get_file_of)
    next
      case (Some v)
      then have "py_str rt v \<noteq> []"
        using nonempty by (simp add: py_str_nonempty file_of_truthy)
      with Some show ?thesis
        by (simp add: merge_get_file_of report_get_file_of)
    qed
  qed
qed

theorem file_identity_agrees_witness:
  "(\<forall>f. repr_float plain_rt f \<noteq> [])
   \<and> merge_get_file plain_rt [(''resource'', JObj [(''fsPath'', JStr ''a.c'')])] = ''a.c''
   \<and> report_get_file plain_rt [(''resource'', JObj [(''fsPath'', JStr ''a.c'')])] = Some ''a.c''"
proof -
  have m: "merge_get_file plain_rt [(''resource'', JObj [(''fsPath'', JStr ''a.c'')])] = ''a.c''"
    by (simp add: key_eval)
  from file_identity_agrees [of plain_rt "[(''resource'', JObj [(''fsPath'', JStr ''a.c'')])]"]
    plain_repr_float_nonempty m
  show ?thesis by simp
qed

section \<open>Properties of the report script\<close>

lemmas report_eval =
  report_main_def report_body_def MAX_INPUT_SIZE_BYTES_def extract_items_def
  is_valid_diagnostic_item_def keep_def report_get_code_def report_get_file_def
  truncate_items_def count_file_def simple_rows_def simple_header_def most_common_def
  sanitize_csv_cell_def startswith_any_def detailed_row_def report_get_pos_def
  to_int_or_none_def py_pair_def pos_cell_def detailed_header_def

subsection \<open>The per-file table's rows\<close>

text \<open>
  C6. Every data row of the per-file table should have the four columns of its header,
  with day and version filled in, and the repository's test asserts so. The code writes
  two cells, the file and the count: at the test's input the single data row is
  \<open>[a.c, 1]\<close>, so the test's \<^verbatim>\<open>simple_rows[1][0:2] == ["2026-01-01", "release-42"]\<close>
  fails.
\<close>

theorem per_file_row_has_two_cells:
  "simple_csv (report_main plain_rt test_args (Stat 150 (Loaded test_payload)))
     = Some [[CStr ''day'', CStr ''version'', CStr ''file'', CStr ''count''],
             [CStr ''a.c'', CInt 1]]"
  by (simp add: test_args_def test_payload_def report_eval key_eval)

subsection \<open>The validity gate\<close>

lemma keep_valid: "is_valid_diagnostic_item d \<Longrightarrow> \<exists>b. keep args d = Inr b"
  by (cases "dict_get d ''message''")
     (auto simp: is_valid_diagnostic_item_def keep_def Let_def dict_get_def dict_get_default_def
        split: option.splits)

lemma filter_keep_valid:
  "list_all is_valid_diagnostic_item xs \<Longrightarrow>
   filter_keep args xs = Inr (filter (\<lambda>d. keep args d = Inr True) xs)"
proof (induction xs)
  case Nil
  then show ?case by simp
next
  case (Cons d ds)
  then obtain b where "keep args d = Inr b"
    using keep_valid [of d args] by auto
  with Cons show ?case by simp
qed

lemma skipped_count:
  "length xs - length (filter P xs) = length (filter (\<lambda>x. \<not> P x) xs)"
  using sum_length_filter_compl [of P xs] by simp


lemma write_rows_prefix:
  "fst (write_rows rt args sel) =
     map projr (takeWhile (\<lambda>r. \<not> isl r) (map (detailed_row rt args) sel))"
  by (induction sel) (auto split: sum.splits prod.splits)

lemma report_body_selected:
  assumes "0 \<le> arg_max_items args"
  shows "simple_csv (report_body rt args data) =
           Some (simple_header #
             simple_rows rt (foldl (count_file rt) [] (selected args (extract_items data))))"
    and "detailed_csv (report_body rt args data) =
           Some (detailed_header # fst (write_rows rt args (selected args (extract_items data))))"
proof -
  let ?valid = "filter is_valid_diagnostic_item (extract_items data)"
  have "list_all is_valid_diagnostic_item ?valid"
    by (simp add: list_all_iff)
  then have fk: "filter_keep args ?valid = Inr (filter (\<lambda>d. keep args d = Inr True) ?valid)"
    by (rule filter_keep_valid)
  show "simple_csv (report_body rt args data) =
           Some (simple_header #
             simple_rows rt (foldl (count_file rt) [] (selected args (extract_items data))))"
    using assms unfolding report_body_def Let_def fk
    by (simp add: selected_def split: prod.splits)
  show "detailed_csv (report_body rt args data) =
           Some (detailed_header # fst (write_rows rt args (selected args (extract_items data))))"
    using assms unfolding report_body_def Let_def fk
    by (simp add: selected_def split: prod.splits)
qed

lemma report_body_negative_cap:
  assumes "arg_max_items args < 0"
  shows "simple_csv (report_body rt args data) = None"
    and "detailed_csv (report_body rt args data) = None"
    and "status (report_body rt args data) = SysExit 2"
proof -
  let ?valid = "filter is_valid_diagnostic_item (extract_items data)"
  have "list_all is_valid_diagnostic_item ?valid"
    by (simp add: list_all_iff)
  then have fk: "filter_keep args ?valid = Inr (filter (\<lambda>d. keep args d = Inr True) ?valid)"
    by (rule filter_keep_valid)
  show "simple_csv (report_body rt args data) = None"
    and "detailed_csv (report_body rt args data) = None"
    and "status (report_body rt args data) = SysExit 2"
    using assms unfolding report_body_def Let_def fk by simp_all
qed

lemma report_body_warning:
  "skipped_warning (report_body rt args data) =
     (let n = length (filter (\<lambda>d. \<not> is_valid_diagnostic_item d) (extract_items data))
      in if n = 0 then None else Some n)"
proof -
  let ?valid = "filter is_valid_diagnostic_item (extract_items data)"
  have "list_all is_valid_diagnostic_item ?valid"
    by (simp add: list_all_iff)
  then have fk: "filter_keep args ?valid = Inr (filter (\<lambda>d. keep args d = Inr True) ?valid)"
    by (rule filter_keep_valid)
  show ?thesis
    unfolding report_body_def Let_def fk skipped_count
    by (simp split: prod.splits)
qed

lemma selected_valid: "list_all is_valid_diagnostic_item (selected args items)"
  by (auto simp: selected_def truncate_items_def list_all_iff dest: in_set_takeD)

text \<open>
  C7. A record whose \<^verbatim>\<open>source\<close> or \<^verbatim>\<open>message\<close> is not a string reaches neither table:
  both tables are computed from the selected records, which are all valid, and the
  warning carries the number of invalid records whenever there is one.
\<close>

theorem validity_gate:
  "skipped_warning (report_body rt args data) =
     (let n = length (filter (\<lambda>d. \<not> is_valid_diagnostic_item d) (extract_items data))
      in if n = 0 then None else Some n)
   \<and> list_all is_valid_diagnostic_item (selected args (extract_items data))
   \<and> simple_csv (report_body rt args data) =
       (if arg_max_items args < 0 then None
        else Some (simple_header #
               simple_rows rt (foldl (count_file rt) [] (selected args (extract_items data)))))
   \<and> detailed_csv (report_body rt args data) =
       (if arg_max_items args < 0 then None
        else Some (detailed_header #
               map projr (takeWhile (\<lambda>r. \<not> isl r)
                 (map (detailed_row rt args) (selected args (extract_items data))))))"
proof (cases "arg_max_items args < 0")
  case True
  then show ?thesis
    using report_body_warning [of rt args data] selected_valid [of args "extract_items data"]
    by (simp add: report_body_negative_cap)
next
  case False
  then have "0 \<le> arg_max_items args" by simp
  then show ?thesis
    using report_body_warning [of rt args data] selected_valid [of args "extract_items data"] False
    by (simp add: report_body_selected write_rows_prefix)
qed

subsection \<open>Cell sanitization\<close>

lemma sanitize_neutralized: "sanitize_csv_cell rt v = neutralized (str_or_empty rt v)"
  by (cases "str_or_empty rt v")
     (auto simp: sanitize_csv_cell_def neutralized_def str_or_empty_def startswith_any_def Let_def)

text \<open>
  C8. Every textual cell of both tables is the neutralized form of its value: the file
  in the per-file table; day, version, file, code, source and message in the detailed
  table. The line and the column are written as the integers they are (or the empty
  marker), with no marker in front, whatever their sign.
\<close>

theorem cell_sanitization:
  "sanitize_csv_cell rt v = neutralized (str_or_empty rt v)
   \<and> simple_rows rt per_file =
       map (\<lambda>(fp, n). [CStr (neutralized fp), CInt (int n)]) (most_common per_file)
   \<and> detailed_row rt args d =
       (case report_get_pos rt d of
          Inl e \<Rightarrow> Inl e
        | Inr (line, col) \<Rightarrow>
            Inr [CStr (neutralized (arg_day args)),
                 CStr (neutralized (arg_version args)),
                 CStr (neutralized (case report_get_file rt d of Some s \<Rightarrow> s | None \<Rightarrow> [])),
                 pos_cell line,
                 pos_cell col,
                 CStr (neutralized (str_or_empty rt (py_or (report_get_code d) (JStr [])))),
                 CStr (neutralized (str_or_empty rt (dict_get_default d ''source'' (JStr [])))),
                 CStr (neutralized (str_or_empty rt (dict_get_default d ''message'' (JStr []))))])
   \<and> pos_cell (Some i) = CInt i"
proof -
  have str: "\<And>s. str_or_empty rt (JStr s) = s"
    by (simp add: str_or_empty_def py_str_def)
  have fp_eq: "(case report_get_file rt d of Some s \<Rightarrow> if s \<noteq> [] then s else [] | None \<Rightarrow> [])
      = (case report_get_file rt d of Some s \<Rightarrow> s | None \<Rightarrow> [])"
    by (simp split: option.splits)
  show ?thesis
    unfolding simple_rows_def detailed_row_def Let_def fp_eq sanitize_neutralized str
    by (simp add: pos_cell_def)
qed

subsection \<open>The per-file summary\<close>

lemma foldl_count_file:
  "foldl (count_file rt) c sel = foldl counter_incr c (counted_files rt sel)"
  by (induction sel arbitrary: c)
     (auto simp: counted_files_def count_file_def split: option.splits)

lemma counter_incr_map:
  "distinct ks \<Longrightarrow>
   counter_incr (map (\<lambda>g. (g, n g)) ks) f =
     (if f \<in> set ks then map (\<lambda>g. (g, if g = f then n g + 1 else n g)) ks
      else map (\<lambda>g. (g, n g)) ks @ [(f, 1)])"
  by (induction ks) auto

lemma first_seen_order_snoc:
  "first_seen_order (fs @ [f]) =
     (if f \<in> set fs then first_seen_order fs else first_seen_order fs @ [f])"
  by (simp add: first_seen_order_def)

lemma first_seen_order_set [simp]: "set (first_seen_order fs) = set fs"
  by (simp add: first_seen_order_def)

lemma first_seen_order_distinct [simp]: "distinct (first_seen_order fs)"
  by (simp add: first_seen_order_def)

lemma counter_incr_counter_of: "counter_incr (counter_of fs) f = counter_of (fs @ [f])"
proof -
  have "counter_incr (map (\<lambda>g. (g, count_list fs g)) (first_seen_order fs)) f =
     (if f \<in> set fs then map (\<lambda>g. (g, if g = f then count_list fs g + 1 else count_list fs g))
                            (first_seen_order fs)
      else map (\<lambda>g. (g, count_list fs g)) (first_seen_order fs) @ [(f, 1)])"
    using counter_incr_map [of "first_seen_order fs" "count_list fs" f] by simp
  then show ?thesis
    by (auto simp: counter_of_def first_seen_order_snoc)
qed

lemma foldl_counter_incr: "foldl counter_incr (counter_of fs) gs = counter_of (fs @ gs)"
  by (induction gs arbitrary: fs) (simp_all add: counter_incr_counter_of)

lemma per_file_counter_of: "foldl (count_file rt) [] sel = counter_of (counted_files rt sel)"
  using foldl_counter_incr [of "[]" "counted_files rt sel"]
  by (simp add: foldl_count_file counter_of_def first_seen_order_def)

lemma most_common_keys:
  "distinct (map fst (most_common (counter_of fs)))"
  "set (map fst (most_common (counter_of fs))) = set fs"
proof -
  have keys: "map fst (counter_of fs) = first_seen_order fs"
    by (simp add: counter_of_def comp_def)
  then have "distinct (map fst (counter_of fs))"
    by simp
  then have "distinct (counter_of fs) \<and> inj_on fst (set (counter_of fs))"
    by (simp add: distinct_map)
  then have "distinct (most_common (counter_of fs)) \<and> inj_on fst (set (most_common (counter_of fs)))"
    by (simp add: most_common_def)
  then show "distinct (map fst (most_common (counter_of fs)))"
    by (simp add: distinct_map)
  have "set (map fst (most_common (counter_of fs))) = set (map fst (counter_of fs))"
    by (simp add: most_common_def)
  then show "set (map fst (most_common (counter_of fs))) = set fs"
    by (simp only: keys first_seen_order_set)
qed

lemma most_common_counts:
  "map snd (most_common (counter_of fs)) = map (count_list fs) (map fst (most_common (counter_of fs)))"
proof -
  have "\<forall>r \<in> set (counter_of fs). snd r = count_list fs (fst r)"
    by (auto simp: counter_of_def)
  then have "\<forall>r \<in> set (most_common (counter_of fs)). snd r = count_list fs (fst r)"
    by (simp add: most_common_def)
  then show ?thesis
    by simp
qed

lemma most_common_descending:
  "sorted_wrt (\<lambda>m n. n \<le> m) (map snd (most_common c))"
proof -
  have "sorted (map (\<lambda>kn. - int (snd kn)) (most_common c))"
    unfolding most_common_def by (rule sorted_sort_key)
  then show ?thesis
    by (simp add: sorted_wrt_map)
qed

lemma most_common_ties:
  "filter (\<lambda>r. snd r = n) (most_common c) = filter (\<lambda>r. snd r = n) c"
  using sort_key_stable [of "\<lambda>kn. - int (snd kn)" "- int n" c]
  by (simp add: most_common_def)

lemma counter_of_ties:
  "map fst (filter (\<lambda>r. snd r = n) (counter_of fs)) =
     filter (\<lambda>f. count_list fs f = n) (first_seen_order fs)"
  by (simp add: counter_of_def filter_map comp_def)


lemma summary_counter_of: "summary rt filtered = most_common (counter_of (counted_files rt filtered))"
  by (simp add: summary_def per_file_counter_of)

text \<open>
  The summary itself: it has one item per derived file of the filtered records, a
  record with no or an empty derived file being left out; each item carries the number
  of records with that file; the items stand in descending order of count, and the
  items of one count stand in the order in which their files were first seen. The
  per-file table renders these items. The detailed table is written from every
  filtered record, whatever its file, and stops at the first row that raises.
\<close>

theorem per_file_summary:
  "distinct (map fst (summary rt filtered))
   \<and> set (map fst (summary rt filtered)) = set (counted_files rt filtered)
   \<and> map snd (summary rt filtered) =
       map (count_list (counted_files rt filtered)) (map fst (summary rt filtered))
   \<and> sorted_wrt (\<lambda>m n. n \<le> m) (map snd (summary rt filtered))
   \<and> (\<forall>n. map fst (filter (\<lambda>r. snd r = n) (summary rt filtered)) =
            filter (\<lambda>f. count_list (counted_files rt filtered) f = n)
              (first_seen_order (counted_files rt filtered)))
   \<and> simple_rows rt (foldl (count_file rt) [] filtered) =
       map (\<lambda>(fp, n). [CStr (sanitize_csv_cell rt (JStr fp)), CInt (int n)]) (summary rt filtered)
   \<and> fst (write_rows rt args filtered) =
       map projr (takeWhile (\<lambda>r. \<not> isl r) (map (detailed_row rt args) filtered))"
proof -
  let ?fs = "counted_files rt filtered"
  have a: "distinct (map fst (summary rt filtered))"
    unfolding summary_counter_of by (rule most_common_keys)
  have b: "set (map fst (summary rt filtered)) = set ?fs"
    unfolding summary_counter_of by (rule most_common_keys)
  have c: "map snd (summary rt filtered) = map (count_list ?fs) (map fst (summary rt filtered))"
    unfolding summary_counter_of by (rule most_common_counts)
  have d: "sorted_wrt (\<lambda>m n. n \<le> m) (map snd (summary rt filtered))"
    unfolding summary_def by (rule most_common_descending)
  have e: "map fst (filter (\<lambda>r. snd r = n) (summary rt filtered)) =
            filter (\<lambda>f. count_list ?fs f = n) (first_seen_order ?fs)" for n
    unfolding summary_counter_of most_common_ties by (rule counter_of_ties)
  have f: "simple_rows rt (foldl (count_file rt) [] filtered) =
       map (\<lambda>(fp, n). [CStr (sanitize_csv_cell rt (JStr fp)), CInt (int n)]) (summary rt filtered)"
    by (simp add: simple_rows_def summary_def)
  have g: "fst (write_rows rt args filtered) =
       map projr (takeWhile (\<lambda>r. \<not> isl r) (map (detailed_row rt args) filtered))"
    by (rule write_rows_prefix)
  from a b c d e f g show ?thesis
    by blast
qed

text \<open>
  A record without a file has a row in the detailed table and none in the summary;
  equal counts keep the first-seen order.
\<close>

lemma fileless_record_in_detailed_only:
  "simple_rows plain_rt (foldl (count_file plain_rt) []
      [[(''source'', JStr ''clangd''), (''message'', JStr ''m'')]]) = []
   \<and> fst (write_rows plain_rt test_args [[(''source'', JStr ''clangd''), (''message'', JStr ''m'')]])
      = [[CStr ''2026-01-01'', CStr ''release-42'', CStr [], CStr [], CStr [], CStr [],
          CStr ''clangd'', CStr ''m'']]"
  by (simp add: test_args_def report_eval key_eval)

lemma summary_example:
  "summary plain_rt
     [[(''file'', JStr ''a.c'')], [(''file'', JStr ''b.c'')], [(''file'', JStr ''c.c'')],
      [(''file'', JStr ''c.c'')], [(''message'', JStr ''no file'')], [(''file'', JStr ''b.c'')]]
   = [(''b.c'', 2), (''c.c'', 2), (''a.c'', 1)]"
  by (simp add: summary_def report_eval key_eval)

lemma write_rows_all:
  "list_all (\<lambda>d. \<not> isl (detailed_row rt args d)) sel \<Longrightarrow>
   write_rows rt args sel = (map (\<lambda>d. projr (detailed_row rt args d)) sel, None)"
  by (induction sel) (auto split: sum.splits)

text \<open>
  C9. The summary groups, counts and orders as stated, but a record with an empty file
  does not always appear in the detailed table: \<^verbatim>\<open>to_int_or_none\<close> lets
  \<^verbatim>\<open>OverflowError\<close> through, so a record whose line is \<^verbatim>\<open>1e999\<close> ends the run while
  the detailed table is written. The record without a file that follows it is then in
  neither table: the per-file table holds \<open>a.c\<close> alone and the detailed table its
  header alone.
\<close>

theorem fileless_record_lost_after_overflow:
  "status (report_main plain_rt test_args (Stat 200 (Loaded overflow_payload)))
     = Uncaught OverflowError
   \<and> simple_csv (report_main plain_rt test_args (Stat 200 (Loaded overflow_payload)))
     = Some [simple_header, [CStr ''a.c'', CInt 1]]
   \<and> detailed_csv (report_main plain_rt test_args (Stat 200 (Loaded overflow_payload)))
     = Some [detailed_header]"
  by (simp add: test_args_def overflow_payload_def report_eval key_eval)

end
